theory Spec2Isabelle
  imports Main "HOL-Library.Char_ord" "HOL-Library.List_Lexorder" "HOL-Library.Product_Lexorder"
    "HOL-Library.Multiset"
begin

section \<open>The parsed feed\<close>

text \<open>
  \<^verbatim>\<open>build_site.py\<close> reads the feed through \<^verbatim>\<open>xmltodict.parse\<close>, which turns the XML
  text into nested Python values: a \<^verbatim>\<open>dict\<close> with text keys (in document order), a
  \<^verbatim>\<open>list\<close>, a \<^verbatim>\<open>str\<close> or \<^verbatim>\<open>None\<close>. A \<^verbatim>\<open>dict\<close> is kept as the list of its items,
  in the order \<^verbatim>\<open>.items()\<close> yields them.

  Python text is a sequence of code points. A \<^typ>\<open>char\<close> stands for the code point of the
  same number, so a \<^typ>\<open>string\<close> is a Python \<^verbatim>\<open>str\<close> over the code points below 256.
  The source has three characters beyond that range (U+2011 in a replacement text, U+2014
  and U+2019 in the page); each is written as the three bytes of its UTF-8 encoding, which
  are not white space and which every later step leaves as they are.
\<close>

datatype pyval =
    PNone
  | PStr string
  | PList "pyval list"
  | PDict "(string \<times> pyval) list"

text \<open>Truth value testing: \<^verbatim>\<open>None\<close>, \<^verbatim>\<open>""\<close>, \<^verbatim>\<open>[]\<close> and \<^verbatim>\<open>{}\<close> are false.\<close>

fun truthy :: "pyval \<Rightarrow> bool" where
  "truthy PNone = False"
| "truthy (PStr s) = (s \<noteq> [])"
| "truthy (PList vs) = (vs \<noteq> [])"
| "truthy (PDict items) = (items \<noteq> [])"

text \<open>\<^verbatim>\<open>a or b\<close> is \<^verbatim>\<open>a\<close> when \<^verbatim>\<open>a\<close> is true, and \<^verbatim>\<open>b\<close> otherwise.\<close>

definition py_or :: "pyval \<Rightarrow> pyval \<Rightarrow> pyval" where
  "py_or a b = (if truthy a then a else b)"

text \<open>\<^verbatim>\<open>d.get(k)\<close>: the value stored under \<^verbatim>\<open>k\<close>, \<^verbatim>\<open>None\<close> when there is none.\<close>

definition dict_get :: "(string \<times> pyval) list \<Rightarrow> string \<Rightarrow> pyval" where
  "dict_get items k = (case map_of items k of None \<Rightarrow> PNone | Some v \<Rightarrow> v)"

text \<open>
  \<^verbatim>\<open>str(v)\<close>. For a \<^verbatim>\<open>list\<close> or a \<^verbatim>\<open>dict\<close> it is the value's \<^verbatim>\<open>repr\<close>, a function of
  the interpreter that the functions below take as the parameter \<open>repr\<close>.
\<close>

fun py_str :: "(pyval \<Rightarrow> string) \<Rightarrow> pyval \<Rightarrow> string" where
  "py_str repr (PStr s) = s"
| "py_str repr PNone = ''None''"
| "py_str repr v = repr v"

text \<open>
  A \<^verbatim>\<open>list\<close> and a \<^verbatim>\<open>dict\<close> cannot be hashed: using one as a key of a \<^verbatim>\<open>dict\<close> or
  as a member of a \<^verbatim>\<open>set\<close> raises \<^verbatim>\<open>TypeError\<close>.
\<close>

fun hashable :: "pyval \<Rightarrow> bool" where
  "hashable (PList vs) = False"
| "hashable (PDict items) = False"
| "hashable v = True"

text \<open>The exceptions of a parse: \<^verbatim>\<open>TypeError\<close>, and what \<^verbatim>\<open>xmltodict.parse\<close> raises.\<close>

datatype error = TypeError | ExpatError

fun try_bind :: "error + 'a \<Rightarrow> ('a \<Rightarrow> error + 'b) \<Rightarrow> error + 'b" where
  "try_bind (Inl e) f = Inl e"
| "try_bind (Inr x) f = f x"

section \<open>Tree extractor\<close>

text \<open>
  \<^verbatim>\<open>find_all_key\<close> (lines 43--53). The two \<^verbatim>\<open>for\<close> loops are the functions
  \<open>find_all_key_items\<close> and \<open>find_all_key_elems\<close>, which carry the list \<^verbatim>\<open>out\<close>.
\<close>

fun find_all_key :: "pyval \<Rightarrow> string \<Rightarrow> pyval list"
  and find_all_key_items :: "(string \<times> pyval) list \<Rightarrow> string \<Rightarrow> pyval list \<Rightarrow> pyval list"
  and find_all_key_elems :: "pyval list \<Rightarrow> string \<Rightarrow> pyval list \<Rightarrow> pyval list"
where
  "find_all_key (PDict items) key_name = find_all_key_items items key_name []"
| "find_all_key (PList vs) key_name = find_all_key_elems vs key_name []"
| "find_all_key PNone key_name = []"
| "find_all_key (PStr s) key_name = []"
| "find_all_key_items [] key_name out = out"
| "find_all_key_items ((k, v) # rest) key_name out =
     (let out1 = (if k = key_name then out @ [v] else out);
          out2 = out1 @ find_all_key v key_name
      in find_all_key_items rest key_name out2)"
| "find_all_key_elems [] key_name out = out"
| "find_all_key_elems (v # rest) key_name out =
     find_all_key_elems rest key_name (out @ find_all_key v key_name)"

text \<open>
  The traversal the specification describes: every entry of every mapping of the tree,
  listed depth first and in pre-order (an entry before the entries inside its value),
  mapping entries in the mapping's own order and sequence elements by index. A scalar
  contributes nothing.
\<close>

fun preorder_entries :: "pyval \<Rightarrow> (string \<times> pyval) list" where
  "preorder_entries (PDict items) = concat (map (\<lambda>(k, v). (k, v) # preorder_entries v) items)"
| "preorder_entries (PList vs) = concat (map preorder_entries vs)"
| "preorder_entries PNone = []"
| "preorder_entries (PStr s) = []"

definition values_under :: "string \<Rightarrow> (string \<times> pyval) list \<Rightarrow> pyval list" where
  "values_under key_name es = map snd (filter (\<lambda>kv. fst kv = key_name) es)"

section \<open>Regular expressions\<close>

text \<open>
  The character classes of Python's \<^verbatim>\<open>re\<close> on text, for the code points below 256:
  \<^verbatim>\<open>\w\<close> (alphanumeric or underscore), \<^verbatim>\<open>\s\<close> (also what \<^verbatim>\<open>str.strip()\<close> removes),
  \<^verbatim>\<open>\d\<close>, and the lower case that \<^verbatim>\<open>re.IGNORECASE\<close> compares.
\<close>

definition in_range :: "nat \<Rightarrow> nat \<Rightarrow> char \<Rightarrow> bool" where
  "in_range lo hi c = (lo \<le> of_char c \<and> (of_char c :: nat) \<le> hi)"

definition is_word :: "char \<Rightarrow> bool" where
  "is_word c = (in_range 0x30 0x39 c \<or> in_range 0x41 0x5A c \<or> c = CHR ''_'' \<or>
     in_range 0x61 0x7A c \<or> in_range 0xAA 0xAA c \<or> in_range 0xB2 0xB3 c \<or>
     in_range 0xB5 0xB5 c \<or> in_range 0xB9 0xBA c \<or> in_range 0xBC 0xBE c \<or>
     in_range 0xC0 0xD6 c \<or> in_range 0xD8 0xF6 c \<or> in_range 0xF8 0xFF c)"

definition is_space :: "char \<Rightarrow> bool" where
  "is_space c = (in_range 0x09 0x0D c \<or> in_range 0x1C 0x20 c \<or> in_range 0x85 0x85 c \<or>
     in_range 0xA0 0xA0 c)"

definition is_digit :: "char \<Rightarrow> bool" where
  "is_digit c = in_range 0x30 0x39 c"

definition lower :: "char \<Rightarrow> char" where
  "lower c = (if in_range 0x41 0x5A c \<or> in_range 0xC0 0xD6 c \<or> in_range 0xD8 0xDE c
              then char_of (of_char c + (32::nat)) else c)"

text \<open>
  The patterns of the source use literals, classes, \<^verbatim>\<open>\b\<close>, sequence, alternation and
  the greedy \<^verbatim>\<open>?\<close>, \<^verbatim>\<open>*\<close> and \<^verbatim>\<open>+\<close>.
\<close>

datatype regex =
    Eps
  | Lit char
  | Class "char \<Rightarrow> bool"
  | WordB
  | Seq regex regex
  | Alt regex regex
  | Opt regex
  | Star regex

definition Plus :: "regex \<Rightarrow> regex" where
  "Plus r = Seq r (Star r)"

fun word :: "string \<Rightarrow> regex" where
  "word [] = Eps"
| "word [c] = Lit c"
| "word (c # cs) = Seq (Lit c) (word cs)"

text \<open>
  A position in the text: the character before it (none at the start) and the text from it
  on. \<^verbatim>\<open>\b\<close> holds where exactly one of the two characters around the position is a word
  character.
\<close>

type_synonym cursor = "char option \<times> string"

definition at_boundary :: "cursor \<Rightarrow> bool" where
  "at_boundary cur =
     ((case fst cur of None \<Rightarrow> False | Some c \<Rightarrow> is_word c) \<noteq>
      (case snd cur of [] \<Rightarrow> False | c # _ \<Rightarrow> is_word c))"

text \<open>
  The backtracking matcher: \<open>match_ends ic r cur\<close> lists the positions where a match of \<open>r\<close>
  begun at \<open>cur\<close> can end, in the order in which \<^verbatim>\<open>re\<close> tries them (the left alternative
  first, the longer repetition first); \<open>ic\<close> is \<^verbatim>\<open>re.IGNORECASE\<close>. The match \<^verbatim>\<open>re\<close>
  reports is the head of the list. A repetition stops at an iteration that consumes nothing.
\<close>

function match_ends :: "bool \<Rightarrow> regex \<Rightarrow> cursor \<Rightarrow> cursor list" where
  "match_ends ic Eps cur = [cur]"
| "match_ends ic (Lit c) cur = (case snd cur of [] \<Rightarrow> []
      | d # s' \<Rightarrow> if (if ic then lower d = lower c else d = c) then [(Some d, s')] else [])"
| "match_ends ic (Class P) cur = (case snd cur of [] \<Rightarrow> []
      | d # s' \<Rightarrow> if P d then [(Some d, s')] else [])"
| "match_ends ic WordB cur = (if at_boundary cur then [cur] else [])"
| "match_ends ic (Seq r1 r2) cur = concat (map (match_ends ic r2) (match_ends ic r1 cur))"
| "match_ends ic (Alt r1 r2) cur = match_ends ic r1 cur @ match_ends ic r2 cur"
| "match_ends ic (Opt r) cur = match_ends ic r cur @ [cur]"
| "match_ends ic (Star r) cur =
     concat (map (match_ends ic (Star r))
       (filter (\<lambda>nxt. length (snd nxt) < length (snd cur)) (match_ends ic r cur))) @ [cur]"
  by pat_completeness auto
termination
  by (relation "measures [\<lambda>(ic, r, cur). size r, \<lambda>(ic, r, cur). length (snd cur)]") auto

declare match_ends.simps(8) [simp del]



text \<open>
  \<^verbatim>\<open>re.sub(pattern, repl, text)\<close>: the leftmost matches, one after the other, are replaced.
  After an empty match the next match at the same position must not be empty (\<open>adv\<close>).
\<close>

function re_sub_from :: "bool \<Rightarrow> regex \<Rightarrow> string \<Rightarrow> cursor \<Rightarrow> bool \<Rightarrow> string" where
  "re_sub_from ic r rep cur adv =
     (case filter (\<lambda>nxt. \<not> (adv \<and> length (snd nxt) = length (snd cur))) (match_ends ic r cur) of
        nxt # _ \<Rightarrow> rep @ re_sub_from ic r rep nxt (length (snd nxt) = length (snd cur))
      | [] \<Rightarrow> (case snd cur of [] \<Rightarrow> []
               | c # s' \<Rightarrow> c # re_sub_from ic r rep (Some c, s') False))"
  by pat_completeness auto
termination
proof -
  have star: "set (match_ends ic (Star r) cur) =
      insert cur (\<Union>mid \<in> {m \<in> set (match_ends ic r cur). length (snd m) < length (snd cur)}.
        set (match_ends ic (Star r) mid))" for ic r cur
    by (subst match_ends.simps(8)) auto
  have shorter: "nxt \<in> set (match_ends ic r cur) \<Longrightarrow> length (snd nxt) \<le> length (snd cur)"
    for nxt ic r cur
  proof (induction ic r cur arbitrary: nxt rule: match_ends.induct)
    case (1 ic cur)
    then show ?case by simp
  next
    case (2 ic c cur)
    then show ?case by (cases "snd cur") (simp_all split: if_splits)
  next
    case (3 ic P cur)
    then show ?case by (cases "snd cur") (simp_all split: if_splits)
  next
    case (4 ic cur)
    then show ?case by (simp split: if_splits)
  next
    case (5 ic r1 r2 cur)
    from "5.prems" obtain mid where mid: "mid \<in> set (match_ends ic r1 cur)" "nxt \<in> set (match_ends ic r2 mid)"
      by auto
    from "5.IH"(1) [OF mid(1)] "5.IH"(2) [OF mid] show ?case by simp
  next
    case (6 ic r1 r2 cur)
    from "6.prems" consider "nxt \<in> set (match_ends ic r1 cur)" | "nxt \<in> set (match_ends ic r2 cur)" by auto
    then show ?case
    proof cases
      case 1
      from "6.IH"(1) [OF 1] show ?thesis .
    next
      case 2
      from "6.IH"(2) [OF 2] show ?thesis .
    qed
  next
    case (7 ic r cur)
    from "7.prems" consider "nxt \<in> set (match_ends ic r cur)" | "nxt = cur" by auto
    then show ?case
    proof cases
      case 1
      from "7.IH" [OF 1] show ?thesis .
    next
      case 2
      then show ?thesis by simp
    qed
  next
    case (8 ic r cur)
    show ?case
    proof (cases "nxt = cur")
      case True
      then show ?thesis by simp
    next
      case False
      with "8.prems" obtain mid where mid: "mid \<in> set (match_ends ic r cur)"
        "length (snd mid) < length (snd cur)" "nxt \<in> set (match_ends ic (Star r) mid)"
        unfolding star [of ic r cur] by blast
      from "8.IH"(2) [of mid nxt] mid show ?thesis by simp
    qed
  qed
  show ?thesis
  proof (relation "measures [\<lambda>(ic, r, rep, cur, adv). length (snd cur),
                             \<lambda>(ic, r, rep, cur, adv). if adv then 0 else 1]", goal_cases)
    case 1
    show ?case by simp
  next
    case (2 ic r rep cur adv c s')
    then show ?case by simp
  next
    case (3 ic r rep cur adv nxt rest)
    have "nxt \<in> set (filter (\<lambda>n. \<not> (adv \<and> length (snd n) = length (snd cur))) (match_ends ic r cur))"
      unfolding 3 by simp
    then have "nxt \<in> set (match_ends ic r cur)"
      and na: "\<not> (adv \<and> length (snd nxt) = length (snd cur))"
      by simp_all
    from shorter [OF this(1)] na show ?case by (cases adv) auto
  qed
qed

declare re_sub_from.simps [simp del]

definition re_sub :: "bool \<Rightarrow> regex \<Rightarrow> string \<Rightarrow> string \<Rightarrow> string" where
  "re_sub ic r rep txt = re_sub_from ic r rep (None, txt) False"

text \<open>\<^verbatim>\<open>re.search(pattern, text)\<close>, then \<^verbatim>\<open>.group()\<close>: the text of the leftmost match.\<close>

fun re_search_from :: "bool \<Rightarrow> regex \<Rightarrow> char option \<Rightarrow> string \<Rightarrow> string option" where
  "re_search_from ic r p s =
     (case match_ends ic r (p, s) of
        nxt # _ \<Rightarrow> Some (take (length s - length (snd nxt)) s)
      | [] \<Rightarrow> (case s of [] \<Rightarrow> None | c # s' \<Rightarrow> re_search_from ic r (Some c) s'))"

declare re_search_from.simps [simp del]

definition re_search :: "bool \<Rightarrow> regex \<Rightarrow> string \<Rightarrow> string option" where
  "re_search ic r txt = re_search_from ic r None txt"

text \<open>\<^verbatim>\<open>s.strip()\<close> and \<^verbatim>\<open>s.strip(chars)\<close>.\<close>

definition strip :: "string \<Rightarrow> string" where
  "strip s = rev (dropWhile is_space (rev (dropWhile is_space s)))"

definition strip_chars :: "string \<Rightarrow> string \<Rightarrow> string" where
  "strip_chars chars s =
     rev (dropWhile (\<lambda>c. c \<in> set chars) (rev (dropWhile (\<lambda>c. c \<in> set chars) s)))"

section \<open>Text normalizer\<close>

text \<open>The pattern \<^verbatim>\<open>!\w+[^ ]* ?\<close> of line 87.\<close>

definition shouty :: regex where
  "shouty = Seq (Lit CHR ''!'') (Seq (Plus (Class is_word))
              (Seq (Star (Class (\<lambda>c. c \<noteq> CHR '' ''))) (Opt (Lit CHR '' ''))))"

text \<open>The table \<^verbatim>\<open>repl\<close> of lines 89--100, applied with \<^verbatim>\<open>re.IGNORECASE\<close>.\<close>

definition repl :: "(regex \<times> string) list" where
  "repl =
    [(Seq WordB (Seq (word ''GDP'') WordB), ''Ground Delay Program''),
     (Seq WordB (Seq (word ''GS'') WordB), ''Ground Stop''),
     (Seq WordB (Seq (word ''AFP'') WordB),
        ''Airspace Flow Program (en'' @ [CHR 0xE2, CHR 0x80, CHR 0x91] @ ''route constraint)''),
     (Alt (word ''WX'') (word ''WEATHER''), ''weather''),
     (word ''VOLUME'', ''high traffic volume''),
     (Seq (word ''LOW CEILING'') (Opt (Lit CHR ''S'')), ''low clouds''),
     (Seq (word ''LOW VIS'') (Opt (word ''IBILITY'')), ''low visibility''),
     (Alt (word ''DEICE'') (word ''DEICING''), ''deicing operations''),
     (Alt (word ''RWY'') (word ''RUNWAY''), ''runway''),
     (word ''TFR'', ''temporary flight restriction'')]"

text \<open>
  \<^verbatim>\<open>friendly_reason\<close> (lines 82--105), line by line: \<open>strip_codes\<close> is line 87,
  \<open>simplify\<close> the loop of lines 101--102, \<open>squash\<close> line 104.
\<close>

definition strip_codes :: "string \<Rightarrow> string" where
  "strip_codes txt = strip (re_sub False shouty [] txt)"

definition simplify :: "string \<Rightarrow> string" where
  "simplify txt = fold (\<lambda>(pat, rep) t. re_sub True pat rep t) repl txt"

definition squash :: "string \<Rightarrow> string" where
  "squash txt = strip_chars '' -:;'' (re_sub False (Plus (Class is_space)) '' '' txt)"

definition friendly_reason :: "(pyval \<Rightarrow> string) \<Rightarrow> pyval \<Rightarrow> pyval" where
  "friendly_reason repr raw =
     (if \<not> truthy raw then PNone
      else let txt = py_str repr raw;
               txt = strip_codes txt;
               txt = simplify txt;
               txt = squash txt
           in if txt \<noteq> [] then PStr txt else raw)"





section \<open>Event normalizer\<close>

text \<open>\<^verbatim>\<open>ensure_list\<close> (lines 55--58) and \<^verbatim>\<open>to_int_safe\<close> (lines 60--64).\<close>

fun ensure_list :: "pyval \<Rightarrow> pyval list" where
  "ensure_list PNone = []"
| "ensure_list (PList vs) = vs"
| "ensure_list x = [x]"

definition int_of_digits :: "string \<Rightarrow> int" where
  "int_of_digits ds = foldl (\<lambda>n c. 10 * n + (int (of_char c) - 48)) 0 ds"

definition to_int_safe :: "(pyval \<Rightarrow> string) \<Rightarrow> pyval \<Rightarrow> int option" where
  "to_int_safe repr s =
     (if \<not> truthy s then None
      else case re_search False (Plus (Class is_digit)) (py_str repr s) of
             None \<Rightarrow> None
           | Some m \<Rightarrow> Some (int_of_digits m))"

definition TYPE_ALIASES :: "(string \<times> string) list" where
  "TYPE_ALIASES =
    [(''Ground Delay Programs'', ''Ground Delay Program''),
     (''Ground Delay Program'', ''Ground Delay Program''),
     (''Ground Stops'', ''Ground Stop''),
     (''Ground Stop'', ''Ground Stop''),
     (''Airport Closures'', ''Airport Closure''),
     (''Airport Closure'', ''Airport Closure''),
     (''Departure Delays'', ''Departure Delay''),
     (''Departure Delay'', ''Departure Delay''),
     (''Arrival Delays'', ''Arrival Delay''),
     (''Arrival Delay'', ''Arrival Delay''),
     (''Deicing'', ''Deicing'')]"

text \<open>The record \<^verbatim>\<open>rec\<close> of lines 160--168; the key \<^verbatim>\<open>"end"\<close> is the field \<open>end_\<close>.\<close>

record event =
  type :: string
  airport :: pyval
  avg_delay :: "int option"
  trend :: pyval
  reason :: pyval
  start :: pyval
  end_ :: pyval

definition endswith :: "string \<Rightarrow> string \<Rightarrow> bool" where
  "endswith s suffix = (length suffix \<le> length s \<and> drop (length s - length suffix) s = suffix)"

fun text_of :: "pyval \<Rightarrow> string" where
  "text_of (PStr s) = s"
| "text_of v = []"

text \<open>
  Lines 148--149: \<^verbatim>\<open>TYPE_ALIASES.get(name or "", name or "Event")\<close>. The lookup hashes
  its key. The default, when it is used, is a text: the name itself when the name is a
  non-empty text, and \<^verbatim>\<open>"Event"\<close> when the name is false.
\<close>

definition std_type_of :: "pyval \<Rightarrow> error + string" where
  "std_type_of name =
     (let key = py_or name (PStr []);
          dflt = py_or name (PStr ''Event'')
      in if \<not> hashable key then Inl TypeError
         else case key of
                PStr k \<Rightarrow> (case map_of TYPE_ALIASES k of
                             Some t \<Rightarrow> Inr t
                           | None \<Rightarrow> Inr (text_of dflt))
              | _ \<Rightarrow> Inr (text_of dflt))"

definition make_rec :: "(pyval \<Rightarrow> string) \<Rightarrow> string \<Rightarrow> (string \<times> pyval) list \<Rightarrow> event" where
  "make_rec repr std_type ap =
     \<lparr> type = std_type,
       airport = py_or (dict_get ap ''ARPT'') (py_or (dict_get ap ''Airport_Code'')
                   (py_or (dict_get ap ''IATA'') (PStr ''UNK''))),
       avg_delay = to_int_safe repr (py_or (dict_get ap ''Average_Delay'')
                   (py_or (dict_get ap ''Avg_Delay'') (dict_get ap ''Delay''))),
       trend = dict_get ap ''Trend'',
       reason = friendly_reason repr (dict_get ap ''Reason''),
       start = py_or (dict_get ap ''Start_Time'') (py_or (dict_get ap ''StartTime'')
                   (dict_get ap ''Date'')),
       end_ = py_or (dict_get ap ''End_Time'') (dict_get ap ''EndTime'') \<rparr>"

text \<open>
  The loops of lines 145--169, innermost first; each carries the list \<^verbatim>\<open>events\<close>.
  \<open>airports_loop\<close> is the loop over \<^verbatim>\<open>ensure_list(airports)\<close>, \<open>items_loop\<close> the loop over
  \<^verbatim>\<open>dt_item.items()\<close>, \<open>dt_items_loop\<close> the loop over \<^verbatim>\<open>ensure_list(dt)\<close>, and
  \<open>delay_types_loop\<close> the loop over \<^verbatim>\<open>delay_types\<close>.
\<close>

fun airports_loop :: "(pyval \<Rightarrow> string) \<Rightarrow> string \<Rightarrow> pyval list \<Rightarrow> event list \<Rightarrow> event list" where
  "airports_loop repr std_type [] events = events"
| "airports_loop repr std_type (PDict ap # rest) events =
     airports_loop repr std_type rest (events @ [make_rec repr std_type ap])"
| "airports_loop repr std_type (ap # rest) events = airports_loop repr std_type rest events"

fun items_loop ::
  "(pyval \<Rightarrow> string) \<Rightarrow> string \<Rightarrow> (string \<times> pyval) list \<Rightarrow> event list \<Rightarrow> event list" where
  "items_loop repr std_type [] events = events"
| "items_loop repr std_type ((k, v) # rest) events =
     (if endswith k ''_List''
      then let airports = (case v of PDict d \<Rightarrow> dict_get d ''Airport'' | _ \<Rightarrow> PNone)
           in items_loop repr std_type rest
                (airports_loop repr std_type (ensure_list airports) events)
      else items_loop repr std_type rest events)"

fun dt_items_loop :: "(pyval \<Rightarrow> string) \<Rightarrow> pyval list \<Rightarrow> event list \<Rightarrow> error + event list" where
  "dt_items_loop repr [] events = Inr events"
| "dt_items_loop repr (dt_item # rest) events =
     (let name = (case dt_item of PDict d \<Rightarrow> dict_get d ''Name'' | _ \<Rightarrow> PNone)
      in try_bind (std_type_of name) (\<lambda>std_type.
           case dt_item of
             PDict d \<Rightarrow> dt_items_loop repr rest (items_loop repr std_type d events)
           | _ \<Rightarrow> dt_items_loop repr rest events))"

fun delay_types_loop :: "(pyval \<Rightarrow> string) \<Rightarrow> pyval list \<Rightarrow> event list \<Rightarrow> error + event list" where
  "delay_types_loop repr [] events = Inr events"
| "delay_types_loop repr (dt # rest) events =
     try_bind (dt_items_loop repr (ensure_list dt) events) (delay_types_loop repr rest)"

text \<open>
  Lines 171--177. The key of line 174; the test \<^verbatim>\<open>key not in seen\<close> hashes it; the loop carries
  \<^verbatim>\<open>seen\<close> and \<^verbatim>\<open>deduped\<close>.
\<close>

type_synonym dedup_key = "string \<times> pyval \<times> pyval"

definition dedup_key :: "event \<Rightarrow> dedup_key" where
  "dedup_key e = (type e, airport e, py_or (reason e) (PStr []))"

definition hashable_key :: "dedup_key \<Rightarrow> bool" where
  "hashable_key key = (case key of (t, a, r) \<Rightarrow> hashable a \<and> hashable r)"

fun dedup_loop :: "event list \<Rightarrow> dedup_key set \<Rightarrow> event list \<Rightarrow> error + event list" where
  "dedup_loop [] seen deduped = Inr deduped"
| "dedup_loop (e # rest) seen deduped =
     (let key = dedup_key e
      in if \<not> hashable_key key then Inl TypeError
         else if key \<notin> seen then dedup_loop rest (insert key seen) (deduped @ [e])
         else dedup_loop rest seen deduped)"

text \<open>
  Line 178. \<^verbatim>\<open>list.sort\<close> is stable, and the result of a stable sort is determined by
  the keys: it is \<^const>\<open>sort_key\<close>. The airport of an event that reaches this line is a text
  (a list or a dictionary has raised in line 175, and the chain of line 162 never gives
  \<^verbatim>\<open>None\<close>), which \<open>text_of\<close> reads.
\<close>

definition delay_of :: "event \<Rightarrow> int" where
  "delay_of e = (case avg_delay e of None \<Rightarrow> 0 | Some n \<Rightarrow> n)"

definition sort_key_of :: "event \<Rightarrow> int \<times> string" where
  "sort_key_of e = (- delay_of e, text_of (airport e))"

text \<open>
  \<^verbatim>\<open>parse_events_from_xml\<close> (lines 139--179). \<^verbatim>\<open>xmltodict.parse\<close> is the parameter
  \<open>xml_parse\<close>.
\<close>

definition parse_events_from_xml ::
  "(pyval \<Rightarrow> string) \<Rightarrow> (string \<Rightarrow> error + pyval) \<Rightarrow> string \<Rightarrow> error + event list" where
  "parse_events_from_xml repr xml_parse xml_text =
     try_bind (xml_parse xml_text) (\<lambda>data.
       let delay_types = find_all_key data ''Delay_type'' in
       try_bind (delay_types_loop repr delay_types []) (\<lambda>events.
         try_bind (dedup_loop events {} []) (\<lambda>deduped.
           Inr (sort_key sort_key_of deduped))))"

text \<open>
  The records the specification says de-duplication keeps: those with no earlier record of
  the same key. \<open>first_seen_from\<close> starts from keys that have been seen already.
\<close>

definition first_seen_from :: "dedup_key set \<Rightarrow> event list \<Rightarrow> event list" where
  "first_seen_from seen events =
     map (\<lambda>i. events ! i)
       (filter (\<lambda>i. dedup_key (events ! i) \<notin> seen \<union> dedup_key ` set (take i events))
          [0..<length events])"


text \<open>The source keys of the airport code, in the order of line 162.\<close>

definition airport_keys :: "string list" where
  "airport_keys = [''ARPT'', ''Airport_Code'', ''IATA'']"

text \<open>
  An event made from an airport entry of a block of the feed: \<open>dt\<close> is a value found
  under \<^verbatim>\<open>Delay_type\<close>, \<open>d\<close> one of its blocks, \<open>t\<close> the type of the block.
\<close>

definition made_from :: "(pyval \<Rightarrow> string) \<Rightarrow> pyval list \<Rightarrow> event \<Rightarrow> bool" where
  "made_from repr delay_types e =
     (\<exists>dt d t ap. dt \<in> set delay_types \<and> PDict d \<in> set (ensure_list dt) \<and>
        std_type_of (dict_get d ''Name'') = Inr t \<and> e = make_rec repr t ap)"

section \<open>Rendering\<close>

text \<open>
  \<^verbatim>\<open>html.escape(s)\<close> of the standard library, with its default \<^verbatim>\<open>quote=True\<close>: the five
  characters \<^verbatim>\<open>& < > " '\<close> are replaced by entities.
\<close>

definition esc_char :: "char \<Rightarrow> string" where
  \<open>esc_char c =
     (if c = CHR ''&'' then ''&amp;''
      else if c = CHR ''<'' then ''&lt;''
      else if c = CHR ''>'' then ''&gt;''
      else if c = CHR 0x22 then ''&quot;''
      else if c = CHR 0x27 then ''&#x27;''
      else [c])\<close>

definition esc :: "string \<Rightarrow> string" where
  "esc s = concat (map esc_char s)"

text \<open>\<^verbatim>\<open>str(n)\<close> of an integer: its decimal digits, after a minus sign when negative.\<close>

fun str_nat :: "nat \<Rightarrow> string" where
  "str_nat n =
     (if n < 10 then [char_of (48 + n)]
      else str_nat (n div 10) @ [char_of (48 + n mod 10)])"

declare str_nat.simps [simp del]

definition str_int :: "int \<Rightarrow> string" where
  "str_int i = (if i < 0 then CHR ''-'' # str_nat (nat (- i)) else str_nat (nat i))"

text \<open>\<^verbatim>\<open>sep.join(xs)\<close>.\<close>

fun join :: "string \<Rightarrow> string list \<Rightarrow> string" where
  "join sep [] = []"
| "join sep [x] = x"
| "join sep (x # y # rest) = x @ sep @ join sep (y # rest)"

text \<open>\<^verbatim>\<open>summarize_event\<close> (lines 107--135).\<close>

definition summarize_event :: "(pyval \<Rightarrow> string) \<Rightarrow> event \<Rightarrow> string" where
  "summarize_event repr evt =
     (let typ = type evt;
          ap = py_str repr (airport evt);
          avg = avg_delay evt;
          reason = reason evt;
          start = start evt;
          base =
            (if typ = ''Ground Stop'' then ap @ '': Ground stop in effect''
             else if typ = ''Ground Delay Program'' then ap @ '': Ground delay program''
             else if typ = ''Airport Closure'' then ap @ '': Airport closed''
             else if typ = ''Departure Delay'' then ap @ '': Departure delays''
             else if typ = ''Arrival Delay'' then ap @ '': Arrival delays''
             else if typ = ''Deicing'' then ap @ '': Deicing in effect''
             else ap @ '': '' @ (if typ \<noteq> [] then typ else ''Event''));
          base = (case avg of
                    None \<Rightarrow> base
                  | Some n \<Rightarrow> if n \<noteq> 0 then base @ '' (~'' @ str_int n @ '' min avg delay)''
                              else base);
          base = (if truthy reason
                  then base @ '' '' @ [CHR 0xE2, CHR 0x80, CHR 0x94] @ '' '' @ py_str repr reason
                  else base);
          base = (if truthy start then base @ '' [since '' @ py_str repr start @ '']'' else base)
      in base)"

text \<open>
  The clock reading \<^verbatim>\<open>now\<close> of \<^verbatim>\<open>main\<close> is used through two texts only:
  \<^verbatim>\<open>now.isoformat()\<close> on the fallback page, and
  \<^verbatim>\<open>now.astimezone().strftime("%A, %B %d, %Y %I:%M %p %Z")\<close> in \<^verbatim>\<open>render_html\<close>, which
  depends on the time zone of the machine as well. A reading is kept as these two texts.
\<close>

record datetime =
  isoformat :: string
  astimezone_strftime :: string

text \<open>
  The dictionaries \<^verbatim>\<open>counts\<close> and \<^verbatim>\<open>by_type\<close> of \<^verbatim>\<open>render_html\<close>, as the lists of
  their items in insertion order: a key that is already there keeps its place.
\<close>

fun count_type :: "string \<Rightarrow> (string \<times> nat) list \<Rightarrow> (string \<times> nat) list" where
  "count_type k [] = [(k, 1)]"
| "count_type k ((k', n) # rest) =
     (if k' = k then (k', n + 1) # rest else (k', n) # count_type k rest)"

fun group_type :: "string \<Rightarrow> event \<Rightarrow> (string \<times> event list) list \<Rightarrow> (string \<times> event list) list" where
  "group_type k e [] = [(k, [e])]"
| "group_type k e ((k', es) # rest) =
     (if k' = k then (k', es @ [e]) # rest else (k', es) # group_type k e rest)"

definition pill :: "string \<Rightarrow> nat \<Rightarrow> string" where
  \<open>pill label n =
     ''<span class="pill">'' @ esc label @ '': '' @ esc (str_int (int n)) @ ''</span>''\<close>

definition css :: string where
  \<open>css =
     ''\<newline>'' @
     ''    :root { --bg:#0b1220; --card:#121a2b; --text:#e7eefc; --muted:#b7c0d9; --accent:#7fb3ff; }\<newline>'' @
     ''    * { box-sizing: border-box; }\<newline>'' @
     ''    body { margin:0; font-family: ui-sans-serif, system-ui, -apple-system, Segoe UI, Roboto, Helvetica, Arial, "Apple Color Emoji","Segoe UI Emoji"; background: var(--bg); color: var(--text); }\<newline>'' @
     ''    header { padding: 28px 20px; border-bottom: 1px solid #223; background: linear-gradient(180deg, #0b1220, #0b1220cc); position: sticky; top:0; backdrop-filter: blur(6px); }\<newline>'' @
     ''    h1 { margin:0 0 6px; font-size: 24px; }\<newline>'' @
     ''    .sub { color: var(--muted); font-size: 14px; }\<newline>'' @
     ''    main { max-width: 920px; margin: 0 auto; padding: 18px 16px 64px; }\<newline>'' @
     ''    .card { background: var(--card); border: 1px solid #223; border-radius: 14px; padding: 16px; margin: 16px 0; box-shadow: 0 10px 25px rgba(3,10,30,.25); }\<newline>'' @
     ''    .row { display: flex; gap: 12px; flex-wrap: wrap; }\<newline>'' @
     ''    .pill { display:inline-block; padding:6px 10px; border-radius: 999px; border:1px solid #234; background:#0e1730; color:#cfe0ff; font-size: 12px; }\<newline>'' @
     ''    h2 { margin:10px 0 8px; font-size: 18px; }\<newline>'' @
     ''    h3 { margin:10px 0 8px; font-size: 16px; color: var(--accent); }\<newline>'' @
     ''    ul { margin: 0 0 0 18px; }\<newline>'' @
     ''    footer { color: var(--muted); font-size: 12px; padding: 24px 16px; text-align: center; }\<newline>'' @
     ''    a { color: var(--accent); }\<newline>'' @
     ''    ''\<close>

text \<open>
  \<^verbatim>\<open>render_html\<close> (lines 183--260). Its local values \<^verbatim>\<open>pills\<close>, \<^verbatim>\<open>items\<close> and
  \<^verbatim>\<open>sections_html\<close> are the functions \<open>pills_html\<close>, \<open>items_html\<close> and
  \<open>sections_html\<close> of the events; \<open>render_html\<close> is the final \<^verbatim>\<open>html_doc\<close>.
\<close>

definition list_item :: "(pyval \<Rightarrow> string) \<Rightarrow> event \<Rightarrow> string" where
  "list_item repr e = ''<li>'' @ esc (summarize_event repr e) @ ''</li>''"

definition pills_html :: "event list \<Rightarrow> string" where
  "pills_html events =
     (let counts = fold (\<lambda>e counts. count_type (type e) counts) events []
      in concat (map (\<lambda>(k, v). pill k v)
           (sort_key (\<lambda>kv. (- int (snd kv), fst kv)) counts)))"

definition items_html :: "(pyval \<Rightarrow> string) \<Rightarrow> event list \<Rightarrow> string" where
  "items_html repr events =
     (let top = take 8 events;
          lis = join ''\<newline>'' (map (list_item repr) top)
      in if lis \<noteq> [] then lis else ''<li>No active airport events right now.</li>'')"

definition sections_html :: "(pyval \<Rightarrow> string) \<Rightarrow> event list \<Rightarrow> string" where
  "sections_html repr events =
     (let by_type = fold (\<lambda>e by_type. group_type (type e) e by_type) events [];
          sections = map (\<lambda>typ.
                let lis = join ''\<newline>''
                      (map (list_item repr) (case map_of by_type typ of Some es \<Rightarrow> es | None \<Rightarrow> []))
                in ''<section><h3>'' @ esc typ @ ''</h3><ul>'' @ lis @ ''</ul></section>'')
              (sort (map fst by_type))
      in if sections \<noteq> [] then join ''\<newline>'' sections else ''<p>No active events.</p>'')"

definition render_html :: "(pyval \<Rightarrow> string) \<Rightarrow> event list \<Rightarrow> datetime \<Rightarrow> string" where
  \<open>render_html repr events generated_at =
     (let today = astimezone_strftime generated_at
      in ''<!doctype html>\<newline>'' @
         ''<html lang="en">\<newline>'' @
         ''<meta charset="utf-8">\<newline>'' @
         ''<meta name="viewport" content="width=device-width, initial-scale=1">\<newline>'' @
         ''<title>FAA Daily Bulletin</title>\<newline>'' @
         ''<style>'' @ css @ ''</style>\<newline>'' @
         ''<header>\<newline>'' @
         ''  <h1>FAA Daily Delay & Event Bulletin</h1>\<newline>'' @
         ''  <div class="sub">Generated '' @ esc today @ '' '' @ [CHR 0xE2, CHR 0x80, CHR 0x94] @
            '' Source: FAA NAS Status (Active Airport Events)</div>\<newline>'' @
         ''  <div class="row" style="margin-top:10px;">'' @ pills_html events @ ''</div>\<newline>'' @
         ''</header>\<newline>'' @
         ''<main>\<newline>'' @
         ''  <div class="card">\<newline>'' @
         ''    <h2>Today'' @ [CHR 0xE2, CHR 0x80, CHR 0x99] @ ''s Headlines</h2>\<newline>'' @
         ''    <ul>\<newline>'' @
         ''      '' @ items_html repr events @ ''\<newline>'' @
         ''    </ul>\<newline>'' @
         ''  </div>\<newline>'' @
         ''  <div class="card">\<newline>'' @
         ''    <h2>All Active Airport Events</h2>\<newline>'' @
         ''    '' @ sections_html repr events @ ''\<newline>'' @
         ''  </div>\<newline>'' @
         ''</main>\<newline>'' @
         ''<footer>\<newline>'' @
         ''  Built automatically from the FAA NAS Status XML API. This is an unofficial summary; verify details with your airline and the FAA.\<newline>'' @
         ''</footer>\<newline>'' @
         ''</html>\<newline>'')\<close>

section \<open>The program\<close>

text \<open>
  What \<^verbatim>\<open>requests.get\<close> does is an input of the run: it raises, or it returns a response
  with a status code, headers (of which \<^verbatim>\<open>Content-Type\<close> is read) and a body.
\<close>

datatype http_outcome =
    RequestFailed
  | Response (status_code: nat) (content_type: "string option") (body: string)

text \<open>The lines the program writes to the diagnostic stream.\<close>

datatype diagnostic = FetchError | NotXmlWarning | ParseError error

text \<open>
  The world the program acts on: the files (by path), and what has been printed to the
  standard output and to the diagnostic stream. Writing a file succeeds.
\<close>

record world =
  files :: "string \<rightharpoonup> string"
  stdout :: "string list"
  stderr :: "diagnostic list"

definition print_out :: "string \<Rightarrow> world \<Rightarrow> world" where
  "print_out line w = w\<lparr>stdout := stdout w @ [line]\<rparr>"

definition print_err :: "diagnostic \<Rightarrow> world \<Rightarrow> world" where
  "print_err d w = w\<lparr>stderr := stderr w @ [d]\<rparr>"

text \<open>\<^verbatim>\<open>needle in haystack\<close> on text.\<close>

fun contains :: "string \<Rightarrow> string \<Rightarrow> bool" where
  "contains needle [] = (needle = [])"
| "contains needle (c # cs) = (take (length needle) (c # cs) = needle \<or> contains needle cs)"

text \<open>
  \<^verbatim>\<open>fetch_xml\<close> (lines 20--30). \<^verbatim>\<open>raise_for_status\<close> raises for a status code from 400
  to 599.
\<close>

definition fetch_xml :: "http_outcome \<Rightarrow> world \<Rightarrow> string option \<times> world" where
  "fetch_xml outcome w =
     (case outcome of
        RequestFailed \<Rightarrow> (None, print_err FetchError w)
      | Response code ctype txt \<Rightarrow>
          if 400 \<le> code \<and> code < 600 then (None, print_err FetchError w)
          else if \<not> contains ''xml'' (case ctype of None \<Rightarrow> [] | Some t \<Rightarrow> t)
                  \<and> take 1 (strip txt) \<noteq> ''<''
          then (Some txt, print_err NotXmlWarning w)
          else (Some txt, w))"

text \<open>\<^verbatim>\<open>write_html\<close> (lines 262--265): the file at the path is replaced.\<close>

definition write_html :: "string \<Rightarrow> string \<Rightarrow> world \<Rightarrow> world" where
  "write_html html_text out_path w = w\<lparr>files := (files w)(out_path \<mapsto> html_text)\<rparr>"

text \<open>
  \<^verbatim>\<open>main\<close> (lines 267--287). It returns \<open>Inr\<close> when it returns normally, and \<open>Inl\<close> when
  an exception leaves it. \<open>fallback_page\<close> is the text of lines 273--274.
\<close>

definition fallback_page :: "datetime \<Rightarrow> string" where
  \<open>fallback_page now =
     ''<!doctype html><meta charset='utf-8'><title>FAA Bulletin</title>\<newline>'' @
     ''        <pre>Could not retrieve FAA data at '' @ isoformat now @
     ''Z. Will try again next run.</pre>''\<close>

definition main ::
  "(pyval \<Rightarrow> string) \<Rightarrow> (string \<Rightarrow> error + pyval) \<Rightarrow> http_outcome \<Rightarrow> datetime \<Rightarrow> world \<Rightarrow>
     error + world" where
  "main repr xml_parse outcome now w0 =
     (case fetch_xml outcome w0 of (xml_text, w1) \<Rightarrow>
        if xml_text = None \<or> xml_text = Some []
        then
          let html_text = fallback_page now;
              w2 = write_html html_text ''docs/index.html'' w1
          in Inr (print_out ''Wrote fallback HTML.'' w2)
        else
          let (events, w2) =
                (case parse_events_from_xml repr xml_parse (case xml_text of Some t \<Rightarrow> t | None \<Rightarrow> []) of
                   Inr evs \<Rightarrow> (evs, w1)
                 | Inl e \<Rightarrow> ([], print_err (ParseError e) w1));
              html_text = render_html repr events now;
              w3 = write_html html_text ''docs/index.html'' w2
          in Inr (print_out (''Generated docs/index.html with '' @
                    str_int (int (length events)) @ '' events.'') w3))"


section \<open>Concrete inputs\<close>

text \<open>
  Two feeds, each with the tree \<^verbatim>\<open>xmltodict.parse\<close> returns for it (an element with
  child elements is a dictionary, a repeated element a list, an element with text only the
  text), and the events they give. \<open>sample_parse\<close> is \<^verbatim>\<open>xmltodict.parse\<close> on these two
  texts and raises on any other, as it does on \<^verbatim>\<open><a>\<close>, which is not well-formed.
\<close>

definition taxi_xml :: string where
  "taxi_xml =
     ''<r><Delay_type><Name>Taxi Delays</Name><Taxi_List><Airport><ARPT>JFK</ARPT></Airport>'' @
     ''</Taxi_List></Delay_type></r>''"

definition taxi_feed :: pyval where
  "taxi_feed =
     PDict [(''r'', PDict [(''Delay_type'', PDict
       [(''Name'', PStr ''Taxi Delays''),
        (''Taxi_List'', PDict [(''Airport'', PDict [(''ARPT'', PStr ''JFK'')])])])])]"

definition taxi_event :: event where
  "taxi_event = \<lparr>type = ''Taxi Delays'', airport = PStr ''JFK'', avg_delay = None,
     trend = PNone, reason = PNone, start = PNone, end_ = PNone\<rparr>"

definition stops_xml :: string where
  "stops_xml =
     ''<r><Delay_type><Name>Ground Stops</Name><Ground_Stop_List>'' @
     ''<Airport><ARPT>JFK</ARPT><Average_Delay>45 minutes</Average_Delay></Airport>'' @
     ''<Airport><IATA>ATL</IATA></Airport>'' @
     ''<Airport><ARPT>JFK</ARPT><Average_Delay>99</Average_Delay></Airport>'' @
     ''<Airport><ARPT>BOS</ARPT><Delay>45</Delay></Airport>'' @
     ''</Ground_Stop_List></Delay_type></r>''"

definition stops_feed :: pyval where
  "stops_feed =
     PDict [(''r'', PDict [(''Delay_type'', PDict
       [(''Name'', PStr ''Ground Stops''),
        (''Ground_Stop_List'', PDict [(''Airport'', PList
           [PDict [(''ARPT'', PStr ''JFK''), (''Average_Delay'', PStr ''45 minutes'')],
            PDict [(''IATA'', PStr ''ATL'')],
            PDict [(''ARPT'', PStr ''JFK''), (''Average_Delay'', PStr ''99'')],
            PDict [(''ARPT'', PStr ''BOS''), (''Delay'', PStr ''45'')]])])])])]"

definition stop_at :: "string \<Rightarrow> int option \<Rightarrow> event" where
  "stop_at ap avg = \<lparr>type = ''Ground Stop'', airport = PStr ap, avg_delay = avg,
     trend = PNone, reason = PNone, start = PNone, end_ = PNone\<rparr>"

definition sample_parse :: "string \<Rightarrow> error + pyval" where
  "sample_parse s =
     (if s = taxi_xml then Inr taxi_feed
      else if s = stops_xml then Inr stops_feed
      else Inl ExpatError)"

text \<open>
  In the runs below no list or dictionary is turned into text, so that \<open>repr\<close> is never
  called; it is taken as \<open>no_repr\<close>.
\<close>

definition no_repr :: "pyval \<Rightarrow> string" where
  "no_repr v = []"

text \<open>A clock reading and a world with no file.\<close>

definition now0 :: datetime where
  "now0 = \<lparr>isoformat = ''2025-01-01T00:00:00+00:00'', astimezone_strftime = ''Wednesday''\<rparr>"

definition world0 :: world where
  "world0 = \<lparr>files = Map.empty, stdout = [], stderr = []\<rparr>"

section \<open>Properties of the tree extractor\<close>

lemma values_under_simps:
  "values_under k [] = []"
  "values_under k ((k', v) # es) = (if k' = k then v # values_under k es else values_under k es)"
  "values_under k (xs @ ys) = values_under k xs @ values_under k ys"
  by (simp_all add: values_under_def)

lemma find_all_key_walk:
  "find_all_key obj k = values_under k (preorder_entries obj)"
  "find_all_key_items items k out =
     out @ values_under k (concat (map (\<lambda>(k', v). (k', v) # preorder_entries v) items))"
  "find_all_key_elems vs k out = out @ values_under k (concat (map preorder_entries vs))"
  by (induction obj k and items k out and vs k out
        rule: find_all_key_find_all_key_items_find_all_key_elems.induct)
     (simp_all add: values_under_simps Let_def)

lemma values_under_empty: "values_under k es = [] \<longleftrightarrow> k \<notin> fst ` set es"
  by (induction es) (auto simp: values_under_def)

text \<open>
  C5. \<open>find_all_key\<close> returns the values stored under the key at any depth, in the order
  of the pre-order, depth-first traversal, and returns the empty list exactly when the key
  is the key of no entry of the tree.
\<close>

theorem find_all_key_preorder:
  "find_all_key obj k = map snd (filter (\<lambda>kv. fst kv = k) (preorder_entries obj)) \<and>
   (find_all_key obj k = [] \<longleftrightarrow> k \<notin> fst ` set (preorder_entries obj))"
  using find_all_key_walk(1) [of obj k] values_under_empty [of k "preorder_entries obj"]
  by (simp add: values_under_def)

theorem find_all_key_preorder_witness:
  "find_all_key (PDict [(''a'', PStr ''x''), (''b'', PList [PDict [(''a'', PDict [(''a'', PNone)])],
      PStr ''s'', PDict [(''a'', PStr ''z'')]])]) ''a''
     = [PStr ''x'', PDict [(''a'', PNone)], PNone, PStr ''z''] \<and>
   find_all_key (PDict [(''b'', PList [PStr ''a'', PNone])]) ''a'' = []"
  using find_all_key_preorder [of "PDict [(''b'', PList [PStr ''a'', PNone])]" "''a''"]
  by simp

section \<open>Properties of the text normalizer\<close>

subsection \<open>The first match of the pattern of line 87\<close>















text \<open>
  C6. \<open>friendly_reason\<close> returns \<^verbatim>\<open>None\<close> for \<^verbatim>\<open>None\<close> and for the empty text. For a
  text that is not empty it never returns the empty text: when the normalized text is
  empty it returns the text it was given, and the normalized text otherwise.
\<close>

theorem friendly_reason_never_empty:
  "friendly_reason repr PNone = PNone \<and>
   friendly_reason repr (PStr []) = PNone \<and>
   (\<forall>raw. raw \<noteq> [] \<longrightarrow>
      friendly_reason repr (PStr raw) \<noteq> PStr [] \<and>
      friendly_reason repr (PStr raw) =
        (if squash (simplify (strip_codes raw)) = [] then PStr raw
         else PStr (squash (simplify (strip_codes raw)))))"
  by (simp add: friendly_reason_def Let_def)

lemma friendly_reason_example: "squash (simplify (strip_codes '' - '')) = []"
  by code_simp

theorem friendly_reason_never_empty_witness:
  "friendly_reason no_repr (PStr '' - '') = PStr '' - ''"
  using friendly_reason_never_empty [of no_repr] friendly_reason_example
  by simp

section \<open>Properties of the event normalizer\<close>

subsection \<open>De-duplication\<close>

lemma upt_Suc_shift: "[0..<Suc n] = 0 # map Suc [0..<n]"
  by (simp add: upt_conv_Cons map_Suc_upt del: upt_Suc)

lemma first_seen_from_Nil: "first_seen_from seen [] = []"
  by (simp add: first_seen_from_def)

lemma first_seen_from_Cons:
  "first_seen_from seen (e # es) =
     (if dedup_key e \<in> seen then first_seen_from seen es
      else e # first_seen_from (insert (dedup_key e) seen) es)"
proof -
  have "first_seen_from seen (e # es) =
      map (\<lambda>i. (e # es) ! i)
        (filter (\<lambda>i. dedup_key ((e # es) ! i) \<notin> seen \<union> dedup_key ` set (take i (e # es)))
           (0 # map Suc [0..<length es]))"
    unfolding first_seen_from_def by (simp only: length_Cons upt_Suc_shift)
  also have "\<dots> = (if dedup_key e \<in> seen then [] else [e]) @
      map (\<lambda>i. es ! i)
        (filter (\<lambda>i. dedup_key (es ! i) \<notin> insert (dedup_key e) seen \<union> dedup_key ` set (take i es))
           [0..<length es])"
    by (simp add: filter_map comp_def conj_ac)
  also have "\<dots> = (if dedup_key e \<in> seen then first_seen_from seen es
      else e # first_seen_from (insert (dedup_key e) seen) es)"
  proof (cases "dedup_key e \<in> seen")
    case True
    then have "insert (dedup_key e) seen = seen" by (rule insert_absorb)
    with True show ?thesis by (simp add: first_seen_from_def)
  next
    case False
    then show ?thesis by (simp add: first_seen_from_def)
  qed
  finally show ?thesis .
qed

lemma dedup_loop_char:
  "dedup_loop es seen acc =
     (if \<forall>e\<in>set es. hashable_key (dedup_key e) then Inr (acc @ first_seen_from seen es)
      else Inl TypeError)"
  by (induction es arbitrary: seen acc)
     (simp_all add: first_seen_from_Nil first_seen_from_Cons Let_def)

lemma first_seen_from_subset: "set (first_seen_from seen es) \<subseteq> set es"
  by (auto simp: first_seen_from_def)

lemma dedup_loop_result:
  assumes "dedup_loop events {} [] = Inr deduped"
  shows "deduped = first_seen_from {} events" and "\<forall>e\<in>set events. hashable_key (dedup_key e)"
  using assms unfolding dedup_loop_char by (simp_all split: if_splits)




subsection \<open>What extraction produces\<close>

lemma airports_loop_made:
  "e \<in> set (airports_loop repr t aps events) \<Longrightarrow>
     e \<in> set events \<or> (\<exists>ap. e = make_rec repr t ap)"
  by (induction repr t aps events rule: airports_loop.induct) auto

lemma items_loop_made:
  "e \<in> set (items_loop repr t items events) \<Longrightarrow>
     e \<in> set events \<or> (\<exists>ap. e = make_rec repr t ap)"
proof (induction repr t items events rule: items_loop.induct)
  case (1 repr t events)
  then show ?case by simp
next
  case (2 repr t k v rest events)
  show ?case
  proof (cases "endswith k ''_List''")
    case True
    let ?airports = "case v of PDict d \<Rightarrow> dict_get d ''Airport'' | _ \<Rightarrow> PNone"
    from True "2.prems" have
      "e \<in> set (items_loop repr t rest (airports_loop repr t (ensure_list ?airports) events))"
      by (simp add: Let_def)
    with True "2.IH"(1) [OF True refl] have
      "e \<in> set (airports_loop repr t (ensure_list ?airports) events) \<or> (\<exists>ap. e = make_rec repr t ap)"
      by blast
    with airports_loop_made show ?thesis by blast
  next
    case False
    with "2.prems" "2.IH"(2) show ?thesis by simp
  qed
qed

lemma dt_items_loop_made:
  "dt_items_loop repr items events = Inr evs \<Longrightarrow> e \<in> set evs \<Longrightarrow>
     e \<in> set events \<or>
     (\<exists>d t ap. PDict d \<in> set items \<and> std_type_of (dict_get d ''Name'') = Inr t \<and>
        e = make_rec repr t ap)"
proof (induction items arbitrary: events)
  case Nil
  then show ?case by simp
next
  case (Cons item items)
  let ?name = "case item of PDict d \<Rightarrow> dict_get d ''Name'' | _ \<Rightarrow> PNone"
  from Cons.prems(1) obtain t where t: "std_type_of ?name = Inr t"
    by (cases "std_type_of ?name") (simp_all add: Let_def)
  show ?case
  proof (cases item)
    case (PDict d)
    with t Cons.prems(1) have "dt_items_loop repr items (items_loop repr t d events) = Inr evs"
      by (simp add: Let_def)
    from Cons.IH [OF this Cons.prems(2)] consider
      "e \<in> set (items_loop repr t d events)"
      | "\<exists>d t ap. PDict d \<in> set items \<and> std_type_of (dict_get d ''Name'') = Inr t \<and>
            e = make_rec repr t ap"
      by blast
    then show ?thesis
    proof cases
      case 1
      from items_loop_made [OF 1] t PDict show ?thesis by auto
    next
      case 2
      then show ?thesis by auto
    qed
  next
    case PNone
    with t Cons.prems(1) have "dt_items_loop repr items events = Inr evs" by (simp add: Let_def)
    from Cons.IH [OF this Cons.prems(2)] show ?thesis by auto
  next
    case (PStr s)
    with t Cons.prems(1) have "dt_items_loop repr items events = Inr evs" by (simp add: Let_def)
    from Cons.IH [OF this Cons.prems(2)] show ?thesis by auto
  next
    case (PList vs)
    with t Cons.prems(1) have "dt_items_loop repr items events = Inr evs" by (simp add: Let_def)
    from Cons.IH [OF this Cons.prems(2)] show ?thesis by auto
  qed
qed

lemma delay_types_loop_made:
  "delay_types_loop repr dts events = Inr evs \<Longrightarrow> e \<in> set evs \<Longrightarrow>
     e \<in> set events \<or> made_from repr dts e"
proof (induction dts arbitrary: events)
  case Nil
  then show ?case by simp
next
  case (Cons dt dts)
  from Cons.prems(1) obtain mid where
    mid: "dt_items_loop repr (ensure_list dt) events = Inr mid"
    and rest: "delay_types_loop repr dts mid = Inr evs"
    by (cases "dt_items_loop repr (ensure_list dt) events") simp_all
  from Cons.IH [OF rest Cons.prems(2)] consider "e \<in> set mid" | "made_from repr dts e" by blast
  then show ?case
  proof cases
    case 1
    from dt_items_loop_made [OF mid 1] show ?thesis
      unfolding made_from_def by (metis list.set_intros(1))
  next
    case 2
    then show ?thesis unfolding made_from_def by (metis list.set_intros(2))
  qed
qed

text \<open>The stages of a parse that returns.\<close>

lemma parse_events_stages:
  assumes "parse_events_from_xml repr xml_parse xml_text = Inr evs"
  obtains data events deduped where
    "xml_parse xml_text = Inr data"
    "delay_types_loop repr (find_all_key data ''Delay_type'') [] = Inr events"
    "dedup_loop events {} [] = Inr deduped"
    "evs = sort_key sort_key_of deduped"
proof -
  from assms obtain data where 1: "xml_parse xml_text = Inr data"
    by (cases "xml_parse xml_text") (simp_all add: parse_events_from_xml_def)
  with assms obtain events where
    2: "delay_types_loop repr (find_all_key data ''Delay_type'') [] = Inr events"
    by (cases "delay_types_loop repr (find_all_key data ''Delay_type'') []")
       (simp_all add: parse_events_from_xml_def)
  with 1 assms obtain deduped where 3: "dedup_loop events {} [] = Inr deduped"
    by (cases "dedup_loop events {} []") (simp_all add: parse_events_from_xml_def)
  with 1 2 assms have "evs = sort_key sort_key_of deduped"
    by (simp add: parse_events_from_xml_def)
  with 1 2 3 that show thesis by blast
qed

lemma parse_events_made:
  assumes "xml_parse xml_text = Inr data"
    and "parse_events_from_xml repr xml_parse xml_text = Inr evs"
    and "e \<in> set evs"
  shows "made_from repr (find_all_key data ''Delay_type'') e"
proof -
  from assms(2) obtain data' events deduped where st:
    "xml_parse xml_text = Inr data'"
    "delay_types_loop repr (find_all_key data' ''Delay_type'') [] = Inr events"
    "dedup_loop events {} [] = Inr deduped"
    "evs = sort_key sort_key_of deduped"
    by (rule parse_events_stages)
  from st(1) assms(1) have [simp]: "data' = data" by simp
  from assms(3) st(4) have "e \<in> set deduped" by simp
  with dedup_loop_result(1) [OF st(3)] first_seen_from_subset have "e \<in> set events" by blast
  with delay_types_loop_made [OF st(2) [simplified]] show ?thesis by auto
qed

lemma taxi_feed_parse:
  "parse_events_from_xml no_repr sample_parse taxi_xml = Inr [taxi_event]"
  by code_simp

lemma stops_feed_parse:
  "parse_events_from_xml no_repr sample_parse stops_xml =
     Inr [stop_at ''BOS'' (Some 45), stop_at ''JFK'' (Some 45), stop_at ''ATL'' None]"
  by code_simp

subsection \<open>Event types\<close>

lemma aliases_empty: "map_of TYPE_ALIASES [] = None"
  by (simp add: TYPE_ALIASES_def)

lemma std_type_of_cases:
  assumes "std_type_of name = Inr t"
  shows "t \<in> snd ` set TYPE_ALIASES \<or> t = ''Event'' \<or>
         (name = PStr t \<and> map_of TYPE_ALIASES t = None)"
proof (cases name)
  case PNone
  with assms show ?thesis by (simp add: std_type_of_def py_or_def aliases_empty)
next
  case (PStr k)
  show ?thesis
  proof (cases "k = []")
    case True
    with PStr assms show ?thesis by (simp add: std_type_of_def py_or_def aliases_empty)
  next
    case False
    show ?thesis
    proof (cases "map_of TYPE_ALIASES k")
      case None
      with PStr False assms show ?thesis by (simp add: std_type_of_def py_or_def)
    next
      case (Some a)
      with PStr False assms have "t = a" by (simp add: std_type_of_def py_or_def)
      with Some have "(k, t) \<in> set TYPE_ALIASES" by (simp add: map_of_SomeD)
      then have "t \<in> snd ` set TYPE_ALIASES" by force
      then show ?thesis by simp
    qed
  qed
next
  case (PList vs)
  with assms show ?thesis by (cases "vs = []") (simp_all add: std_type_of_def py_or_def aliases_empty)
next
  case (PDict items)
  with assms show ?thesis by (cases "items = []") (simp_all add: std_type_of_def py_or_def aliases_empty)
qed

lemma type_make_rec: "type (make_rec repr t ap) = t"
  by (simp add: make_rec_def)

text \<open>
  C3, as amended. The type of every event of a parse is a value of the alias table, or
  \<^verbatim>\<open>"Event"\<close>, or the \<^verbatim>\<open>Name\<close> of a block of the feed that is not a key of the table,
  passed through as it is.
\<close>

theorem event_type_vocabulary:
  assumes "xml_parse xml_text = Inr data"
    and "parse_events_from_xml repr xml_parse xml_text = Inr evs"
    and "e \<in> set evs"
  shows "type e \<in> snd ` set TYPE_ALIASES \<or> type e = ''Event'' \<or>
         (map_of TYPE_ALIASES (type e) = None \<and>
          (\<exists>dt d. dt \<in> set (find_all_key data ''Delay_type'') \<and> PDict d \<in> set (ensure_list dt) \<and>
             dict_get d ''Name'' = PStr (type e)))"
proof -
  from parse_events_made [OF assms] obtain dt d t ap where m:
    "dt \<in> set (find_all_key data ''Delay_type'')" "PDict d \<in> set (ensure_list dt)"
    "std_type_of (dict_get d ''Name'') = Inr t" "e = make_rec repr t ap"
    unfolding made_from_def by blast
  from m(4) have "type e = t" by (simp add: type_make_rec)
  with std_type_of_cases [OF m(3)] m(1,2) show ?thesis by auto
qed

theorem event_type_vocabulary_witness:
  "map_of TYPE_ALIASES (type taxi_event) = None \<and>
   (\<exists>dt d. dt \<in> set (find_all_key taxi_feed ''Delay_type'') \<and> PDict d \<in> set (ensure_list dt) \<and>
      dict_get d ''Name'' = PStr (type taxi_event))"
proof -
  have "type taxi_event \<notin> snd ` set TYPE_ALIASES" "type taxi_event \<noteq> ''Event''"
    by (simp_all add: taxi_event_def TYPE_ALIASES_def)
  moreover have "sample_parse taxi_xml = Inr taxi_feed"
    by (simp add: sample_parse_def)
  ultimately show ?thesis
    using event_type_vocabulary [OF _ taxi_feed_parse, of taxi_feed taxi_event] by simp
qed

text \<open>
  The claim as stated fails: a block named \<^verbatim>\<open>Taxi Delays\<close> gives an event of type
  \<^verbatim>\<open>Taxi Delays\<close>, which is neither a value of the table nor \<^verbatim>\<open>"Event"\<close>.
\<close>

theorem event_type_counterexample:
  "parse_events_from_xml no_repr sample_parse taxi_xml = Inr [taxi_event] \<and>
   type taxi_event \<notin> snd ` set TYPE_ALIASES \<and> type taxi_event \<noteq> ''Event''"
  by (simp add: taxi_feed_parse) (simp add: taxi_event_def TYPE_ALIASES_def)

subsection \<open>Airport codes\<close>

text \<open>
  C8. The airport of a record is the first value under \<^verbatim>\<open>ARPT\<close>, \<^verbatim>\<open>Airport_Code\<close>,
  \<^verbatim>\<open>IATA\<close>, in this order, that Python takes as true, and \<^verbatim>\<open>"UNK"\<close> when there is none.
  \<^verbatim>\<open>xmltodict\<close> stores \<^verbatim>\<open>None\<close> for an element without text and never an empty text;
  where no value under the three keys is empty, the airport is the first value that is
  not \<^verbatim>\<open>None\<close>.
\<close>

theorem airport_fallback_chain:
  "airport (make_rec repr std_type ap) =
     (case find truthy (map (dict_get ap) airport_keys) of
        Some v \<Rightarrow> v
      | None \<Rightarrow> PStr ''UNK'') \<and>
   ((\<forall>k\<in>set airport_keys. dict_get ap k = PNone \<or> truthy (dict_get ap k)) \<longrightarrow>
    airport (make_rec repr std_type ap) =
     (case find (\<lambda>v. v \<noteq> PNone) (map (dict_get ap) airport_keys) of
        Some v \<Rightarrow> v
      | None \<Rightarrow> PStr ''UNK''))"
  by (auto simp: make_rec_def py_or_def airport_keys_def)

theorem airport_fallback_chain_witness:
  "airport (make_rec no_repr ''Ground Stop'' [(''ARPT'', PNone), (''IATA'', PStr ''BOS'')]) = PStr ''BOS'' \<and>
   airport (make_rec no_repr ''Ground Stop'' [(''Reason'', PStr ''WX'')]) = PStr ''UNK''"
  using airport_fallback_chain [of no_repr "''Ground Stop''" "[(''ARPT'', PNone), (''IATA'', PStr ''BOS'')]"]
    airport_fallback_chain [of no_repr "''Ground Stop''" "[(''Reason'', PStr ''WX'')]"]
  by (simp add: airport_keys_def dict_get_def)

subsection \<open>Order\<close>

lemma truthy_airport: "truthy (airport (make_rec repr t ap))"
  by (simp add: make_rec_def py_or_def)

lemma truthy_hashable_text: "truthy v \<Longrightarrow> hashable v \<Longrightarrow> v = PStr (text_of v)"
  by (cases v) simp_all

lemma sort_key_of_le:
  "sort_key_of a \<le> sort_key_of b \<longleftrightarrow>
     delay_of b < delay_of a \<or>
     (delay_of a = delay_of b \<and> text_of (airport a) \<le> text_of (airport b))"
  by (auto simp: sort_key_of_def less_eq_prod_def)

text \<open>
  C2. In the list a parse returns, every event either has a strictly greater delay than
  the next one (no delay counting as 0), or the same delay and an airport code that is
  less than or equal to the next one's in the order of texts; every airport is a text;
  and the list is a stable rearrangement of the de-duplicated list: the events of one
  sort key stand in the order they had before the sort.
\<close>

theorem events_sorted_stable:
  assumes "parse_events_from_xml repr xml_parse xml_text = Inr evs"
  shows "(\<forall>i. Suc i < length evs \<longrightarrow>
            delay_of (evs ! Suc i) < delay_of (evs ! i) \<or>
            (delay_of (evs ! i) = delay_of (evs ! Suc i) \<and>
             text_of (airport (evs ! i)) \<le> text_of (airport (evs ! Suc i)))) \<and>
         (\<forall>e\<in>set evs. airport e = PStr (text_of (airport e))) \<and>
         (\<exists>data events deduped.
            xml_parse xml_text = Inr data \<and>
            delay_types_loop repr (find_all_key data ''Delay_type'') [] = Inr events \<and>
            dedup_loop events {} [] = Inr deduped \<and>
            mset evs = mset deduped \<and>
            (\<forall>k. filter (\<lambda>e. sort_key_of e = k) evs = filter (\<lambda>e. sort_key_of e = k) deduped))"
proof -
  from assms obtain data events deduped where st:
    "xml_parse xml_text = Inr data"
    "delay_types_loop repr (find_all_key data ''Delay_type'') [] = Inr events"
    "dedup_loop events {} [] = Inr deduped"
    "evs = sort_key sort_key_of deduped"
    by (rule parse_events_stages)
  have "sorted (map sort_key_of evs)"
    unfolding st(4) by (rule sorted_sort_key)
  then have adj: "\<forall>i. Suc i < length evs \<longrightarrow> sort_key_of (evs ! i) \<le> sort_key_of (evs ! Suc i)"
    by (auto simp: sorted_iff_nth_Suc)
  have strs: "airport e = PStr (text_of (airport e))" if "e \<in> set evs" for e
  proof -
    from that st(4) have d: "e \<in> set deduped" by simp
    with dedup_loop_result(1) [OF st(3)] first_seen_from_subset have ev: "e \<in> set events" by blast
    with dedup_loop_result(2) [OF st(3)] have "hashable (airport e)"
      by (auto simp: hashable_key_def dedup_key_def)
    moreover from delay_types_loop_made [OF st(2) ev] have "truthy (airport e)"
      by (auto simp: made_from_def truthy_airport)
    ultimately show ?thesis by (rule truthy_hashable_text [rotated])
  qed
  have "mset evs = mset deduped"
    unfolding st(4) by simp
  moreover have "\<forall>k. filter (\<lambda>e. sort_key_of e = k) evs = filter (\<lambda>e. sort_key_of e = k) deduped"
    unfolding st(4) by (simp add: sort_key_stable)
  ultimately show ?thesis
    using adj strs st(1,2,3) by (simp add: sort_key_of_le)
qed

theorem events_sorted_stable_witness:
  "text_of (airport (stop_at ''BOS'' (Some 45))) \<le> text_of (airport (stop_at ''JFK'' (Some 45))) \<and>
   delay_of (stop_at ''ATL'' None) < delay_of (stop_at ''JFK'' (Some 45)) \<and>
   airport (stop_at ''ATL'' None) = PStr ''ATL''"
proof -
  let ?evs = "[stop_at ''BOS'' (Some 45), stop_at ''JFK'' (Some 45), stop_at ''ATL'' None]"
  note s = events_sorted_stable [OF stops_feed_parse]
  from s have adj: "\<forall>i. Suc i < length ?evs \<longrightarrow>
            delay_of (?evs ! Suc i) < delay_of (?evs ! i) \<or>
            (delay_of (?evs ! i) = delay_of (?evs ! Suc i) \<and>
             text_of (airport (?evs ! i)) \<le> text_of (airport (?evs ! Suc i)))"
    by (rule conjunct1)
  from s have strs: "\<forall>e\<in>set ?evs. airport e = PStr (text_of (airport e))"
    by blast
  have d: "delay_of (stop_at ''BOS'' (Some 45)) = 45" "delay_of (stop_at ''JFK'' (Some 45)) = 45"
    "delay_of (stop_at ''ATL'' None) = 0"
    by (simp_all add: delay_of_def stop_at_def)
  from adj [rule_format, of 0] d have "text_of (airport (stop_at ''BOS'' (Some 45)))
      \<le> text_of (airport (stop_at ''JFK'' (Some 45)))"
    by simp
  moreover from strs have "airport (stop_at ''ATL'' None) = PStr ''ATL''"
    by (simp add: stop_at_def)
  ultimately show ?thesis using d by simp
qed

section \<open>Properties of the program\<close>






lemma main_fallback:
  assumes "fst (fetch_xml outcome w0) = None \<or> fst (fetch_xml outcome w0) = Some []"
  shows "main repr xml_parse outcome now w0 =
     Inr (print_out ''Wrote fallback HTML.''
            (write_html (fallback_page now) ''docs/index.html'' (snd (fetch_xml outcome w0))))"
  using assms by (cases "fetch_xml outcome w0") (auto simp: main_def Let_def)





text \<open>
  C10. A response with an empty body takes the fallback path, whatever its status code and
  headers: the files and the standard output are those of a run whose request failed, the
  file is the fallback page, and the parser is not used.
\<close>

theorem empty_body_takes_fallback:
  "\<exists>w w'. main repr xml_parse (Response code ctype []) now w0 = Inr w \<and>
     main repr xml_parse' RequestFailed now w0 = Inr w' \<and>
     files w = files w' \<and> stdout w = stdout w' \<and>
     files w ''docs/index.html'' = Some (fallback_page now) \<and>
     main repr xml_parse' (Response code ctype []) now w0 = Inr w"
proof -
  have e: "fst (fetch_xml (Response code ctype []) w0) = None \<or>
           fst (fetch_xml (Response code ctype []) w0) = Some []"
    by (simp add: fetch_xml_def)
  have f: "fst (fetch_xml RequestFailed w0) = None \<or> fst (fetch_xml RequestFailed w0) = Some []"
    by (simp add: fetch_xml_def)
  show ?thesis
    unfolding main_fallback [OF e] main_fallback [OF f]
    by (simp add: print_out_def write_html_def print_err_def fetch_xml_def)
qed

theorem empty_body_takes_fallback_witness:
  "\<exists>w. main no_repr sample_parse (Response 200 (Some ''text/xml'') []) now0 world0 = Inr w \<and>
     files w ''docs/index.html'' = Some (fallback_page now0) \<and>
     stdout w = [''Wrote fallback HTML.'']"
proof -
  from empty_body_takes_fallback [of no_repr sample_parse 200 "Some ''text/xml''" now0 world0
      sample_parse]
  obtain w w' where w:
    "main no_repr sample_parse (Response 200 (Some ''text/xml'') []) now0 world0 = Inr w"
    "main no_repr sample_parse RequestFailed now0 world0 = Inr w'"
    "stdout w = stdout w'" "files w ''docs/index.html'' = Some (fallback_page now0)"
    by blast
  have "main no_repr sample_parse RequestFailed now0 world0 =
      Inr (print_out ''Wrote fallback HTML.''
        (write_html (fallback_page now0) ''docs/index.html'' (print_err FetchError world0)))"
    by (simp add: main_def fetch_xml_def Let_def)
  with w(2) have "stdout w' = [''Wrote fallback HTML.'']"
    by (auto simp: print_out_def write_html_def print_err_def world0_def)
  with w show ?thesis by simp
qed

end
